theory Spec2Isabelle
  imports Main
begin

section \<open>The voice session client (VoiceWebSocketClient) and its user interface\<close>

text \<open>
  The client is an event-driven TypeScript class.  Its methods and the handlers it
  installs on the WebSocket, the MediaRecorder, its timers and the Web Audio sources
  run one at a time on the JavaScript event loop; an \<open>await\<close> ends the running piece
  and its continuation is a later piece.  The model below has one function per
  method or handler, each taking the client (fields of the class, the runtime objects
  it created, and the trace of its visible effects) to the client afterwards, and an
  \<open>event\<close> type naming what the event loop can run next.
\<close>

subsection \<open>JavaScript values that reach the client\<close>

text \<open>
  What \<open>JSON.parse\<close> returns.  Numbers are kept to integers (no field the client
  reads is numeric).  A property read yields \<open>None\<close> for \<open>undefined\<close>.
\<close>

datatype json =
    JNull
  | JBool bool
  | JNum int
  | JStr string
  | JArr "json list"
  | JObj "(string \<times> json) list"

fun read_prop :: "json \<Rightarrow> string \<Rightarrow> json option" where
  "read_prop (JObj kvs) k = map_of kvs k"
| "read_prop _ k = None"

text \<open>JavaScript truthiness, as used by \<open>&&\<close>, \<open>||\<close> and \<open>if\<close>.\<close>

fun truthy :: "json option \<Rightarrow> bool" where
  "truthy None = False"
| "truthy (Some JNull) = False"
| "truthy (Some (JBool b)) = b"
| "truthy (Some (JNum n)) = (n \<noteq> 0)"
| "truthy (Some (JStr s)) = (s \<noteq> [])"
| "truthy (Some (JArr _)) = True"
| "truthy (Some (JObj _)) = True"

text \<open>\<open>v || d\<close> with a default \<open>d\<close> that is a value; \<open>v || null\<close>.\<close>

definition or_else :: "json option \<Rightarrow> json \<Rightarrow> json" where
  "or_else v d = (if truthy v then the v else d)"

definition or_null :: "json option \<Rightarrow> json option" where
  "or_null v = (if truthy v then v else None)"

type_synonym chunk = "nat list"

text \<open>
  \<open>event.data\<close> of a WebSocket message: an ArrayBuffer, or a string given by what
  \<open>JSON.parse\<close> makes of it (it throws a SyntaxError or returns a value).
\<close>

datatype parse_result = SyntaxError | Parsed json

datatype message_data = ArrayBuffer chunk | Text parse_result

text \<open>What was handed to \<open>ws.send\<close>: \<open>JSON.stringify\<close> of a value, or raw bytes.\<close>

datatype sent_frame = SentJSON json | SentAudio chunk

datatype exn = TypeError

subsection \<open>VoiceClientConfig and the effects of the client\<close>

text \<open>Every callback of the configuration is optional: a field says whether it is given.\<close>

record config =
  onSessionInitialized :: bool
  onTranscription :: bool
  onProcessing :: bool
  onAgentSpeaking :: bool
  onAgentFinished :: bool
  onAudioReceived :: bool
  onInterrupted :: bool
  onError :: bool
  onDisconnected :: bool
  onTimeout :: bool

datatype callback =
    SessionInitialized json
  | Transcription json json
  | Processing json
  | AgentSpeaking json
  | AgentFinished json
  | AudioReceived chunk
  | Interrupted json json
  | Error json
  | Disconnected
  | Timeout

datatype console_entry = Log string | ErrorLog string

text \<open>Calls on the Web Audio API and the end of a source's playback.\<close>

datatype audio_event = Decode chunk | Start chunk | Ended chunk

subsection \<open>Runtime objects\<close>

datatype ready_state = CONNECTING | OPEN | CLOSING | CLOSED

text \<open>
  A WebSocket made by \<open>connect\<close>: its \<open>readyState\<close>, the arguments of \<open>connect\<close>
  its handlers close over, and the frames given to its \<open>send\<close>.
\<close>

record socket =
  readyState :: ready_state
  businessId :: int
  userId :: int
  outbox :: "sent_frame list"

datatype timer_action = TurnEnd | Reconnect int int

text \<open>A \<open>setTimeout\<close>: its delay in ms, what it runs, and whether it is still due.\<close>

record timer =
  delay :: nat
  action :: timer_action
  pending :: bool

datatype recorder_state = Recording | Inactive

text \<open>
  An invocation of \<open>playAudioQueue\<close> that passed its guard: suspended on
  \<open>decodeAudioData\<close> of a chunk, suspended until the source of a chunk ends, or returned.
\<close>

datatype loop = Decoding chunk | Playing chunk | Returned

record client =
  config :: config
  ws :: "nat option"
  mediaRecorder :: "nat option"
  audioContext :: bool
  audioQueue :: "chunk list"
  isPlaying :: bool
  reconnectAttempts :: nat
  sessionId :: "json option"
  isConnected :: bool
  turnEndTimer :: "nat option"
  sockets :: "socket list"
  recorders :: "recorder_state list"
  timers :: "timer list"
  loops :: "loop list"
  blobs :: "chunk list"
  awaiting :: "(nat \<times> chunk) list"
  callbacks :: "callback list"
  audio :: "audio_event list"
  console :: "console_entry list"

text \<open>
  \<open>ws\<close>, \<open>mediaRecorder\<close> and \<open>turnEndTimer\<close> hold references (indices into
  \<open>sockets\<close>, \<open>recorders\<close>, \<open>timers\<close>) or \<open>null\<close>; \<open>audioContext\<close> says whether the
  field is non-null; \<open>sessionId\<close> is \<open>null\<close> or a truthy value.  \<open>blobs\<close> are the
  recorded blobs whose \<open>arrayBuffer()\<close> promise is pending, \<open>awaiting\<close> the
  \<open>onmessage\<close> invocations suspended on \<open>await this.playAudioQueue()\<close>, each with
  the loop it waits for and its \<open>event.data\<close>.
\<close>

definition maxReconnectAttempts :: nat where
  "maxReconnectAttempts = 3"

definition reconnectDelay :: nat where
  "reconnectDelay = 2000"

definition silenceDuration :: nat where
  "silenceDuration = 2000"

definition new_client :: "config \<Rightarrow> client" where
  "new_client cfg = \<lparr>config = cfg, ws = None, mediaRecorder = None, audioContext = False,
     audioQueue = [], isPlaying = False, reconnectAttempts = 0, sessionId = None,
     isConnected = False, turnEndTimer = None, sockets = [], recorders = [], timers = [],
     loops = [], blobs = [], awaiting = [], callbacks = [], audio = [], console = []\<rparr>"

definition log :: "string \<Rightarrow> client \<Rightarrow> client" where
  "log m s = s\<lparr>console := console s @ [Log m]\<rparr>"

definition log_error :: "string \<Rightarrow> client \<Rightarrow> client" where
  "log_error m s = s\<lparr>console := console s @ [ErrorLog m]\<rparr>"

definition invoke :: "callback \<Rightarrow> client \<Rightarrow> client" where
  "invoke cb s = s\<lparr>callbacks := callbacks s @ [cb]\<rparr>"

definition setTimeout :: "timer_action \<Rightarrow> nat \<Rightarrow> client \<Rightarrow> client" where
  "setTimeout a d s = s\<lparr>timers := timers s @ [\<lparr>delay = d, action = a, pending = True\<rparr>]\<rparr>"

definition clearTimeout :: "nat \<Rightarrow> client \<Rightarrow> client" where
  "clearTimeout h s = s\<lparr>timers := (timers s)[h := (timers s ! h)\<lparr>pending := False\<rparr>]\<rparr>"

subsection \<open>Sending\<close>

definition ws_is_open :: "client \<Rightarrow> nat \<Rightarrow> bool" where
  "ws_is_open s i \<longleftrightarrow> i < length (sockets s) \<and> readyState (sockets s ! i) = OPEN"

definition ws_send :: "nat \<Rightarrow> sent_frame \<Rightarrow> client \<Rightarrow> client" where
  "ws_send i f s =
     s\<lparr>sockets := (sockets s)[i := (sockets s ! i)\<lparr>outbox := outbox (sockets s ! i) @ [f]\<rparr>]\<rparr>"

text \<open>The guard \<open>this.ws && this.ws.readyState === WebSocket.OPEN\<close>.\<close>

definition ws_ready :: "client \<Rightarrow> bool" where
  "ws_ready s \<longleftrightarrow> ws s \<noteq> None \<and> ws_is_open s (the (ws s))"

definition sendAudio :: "chunk \<Rightarrow> client \<Rightarrow> client" where
  "sendAudio audioData s =
     (if ws_ready s then ws_send (the (ws s)) (SentAudio audioData) s else s)"

definition send :: "json \<Rightarrow> client \<Rightarrow> client" where
  "send data s =
     (if ws_ready s then ws_send (the (ws s)) (SentJSON data) s else s)"

subsection \<open>handleMessage\<close>

text \<open>
  \<open>message.type\<close> is read first (for the log line): on \<open>null\<close> that read throws a
  TypeError.  The \<open>switch\<close> compares with \<open>===\<close>, so only a string tag matches a case.
\<close>

definition dispatch :: "string \<Rightarrow> json \<Rightarrow> client \<Rightarrow> client" where
  "dispatch t message s =
    (if t = ''session_initialized'' then
       (let s1 = s\<lparr>sessionId := or_null (read_prop message ''session_id'')\<rparr>
        in if onSessionInitialized (config s1) \<and> truthy (sessionId s1)
           then invoke (SessionInitialized (the (sessionId s1))) s1 else s1)
     else if t = ''transcription'' then
       (if onTranscription (config s) \<and> truthy (read_prop message ''text'')
        then invoke (Transcription (the (read_prop message ''text''))
                      (or_else (read_prop message ''is_final'') (JBool False))) s
        else s)
     else if t = ''processing'' then
       (if onProcessing (config s) \<and> truthy (read_prop message ''message'')
        then invoke (Processing (the (read_prop message ''message''))) s else s)
     else if t = ''agent_speaking'' then
       (if onAgentSpeaking (config s) \<and> truthy (read_prop message ''text'')
        then invoke (AgentSpeaking (the (read_prop message ''text''))) s else s)
     else if t = ''agent_finished'' then
       (if onAgentFinished (config s)
        then invoke (AgentFinished (or_else (read_prop message ''session_complete'') (JBool False))) s
        else s)
     else if t = ''interrupted'' then
       (if onInterrupted (config s)
        then invoke (Interrupted (or_else (read_prop message ''spoken_text'') (JStr ''''))
                      (or_else (read_prop message ''has_pending_work'') (JBool False))) s
        else s)
     else if t = ''error'' then
       (if onError (config s) \<and> truthy (read_prop message ''message'')
        then invoke (Error (the (read_prop message ''message''))) s else s)
     else if t = ''timeout'' then
       (if onTimeout (config s) then invoke Timeout s else s)
     else if t = ''heartbeat'' then
       send (JObj [(''command'', JStr ''ping'')]) s
     else if t = ''session_complete'' then
       log ''Session completed'' s
     else s)"

definition handleMessage :: "json \<Rightarrow> client \<Rightarrow> exn + client" where
  "handleMessage message s =
    (case message of
       JNull \<Rightarrow> Inl TypeError
     | _ \<Rightarrow>
        (let s1 = log ''Received message:'' s
         in case read_prop message ''type'' of
              Some (JStr t) \<Rightarrow> Inr (dispatch t message s1)
            | _ \<Rightarrow> Inr s1))"

subsection \<open>Playback: playAudioQueue and clearAudioQueue\<close>

text \<open>
  When an invocation of \<open>playAudioQueue\<close> returns, the \<open>onmessage\<close> invocations
  suspended on it go on to their last statement, the \<open>onAudioReceived\<close> callback.
\<close>

definition resume_onmessage :: "nat \<Rightarrow> client \<Rightarrow> client" where
  "resume_onmessage l s =
     s\<lparr>awaiting := filter (\<lambda>(k, d). k \<noteq> l) (awaiting s),
       callbacks := callbacks s @
         (if onAudioReceived (config s)
          then map (\<lambda>(k, d). AudioReceived d) (filter (\<lambda>(k, d). k = l) (awaiting s))
          else [])\<rparr>"

text \<open>
  The \<open>while\<close> loop of invocation \<open>l\<close>, from its test, over the queue \<open>q\<close>: it shifts
  the head and calls \<open>this.audioContext.decodeAudioData\<close>, where it is suspended; with
  \<open>audioContext\<close> null that call throws inside the inner \<open>try\<close>, the error is logged and
  the loop goes on.  On an empty queue the \<open>finally\<close> clears \<open>isPlaying\<close> and the
  invocation returns.  (An ArrayBuffer is an object, so \<open>if (!audioData) continue\<close>
  never fires.)
\<close>

fun loop_from :: "nat \<Rightarrow> chunk list \<Rightarrow> client \<Rightarrow> client" where
  "loop_from l [] s =
     resume_onmessage l (s\<lparr>audioQueue := [], isPlaying := False, loops := (loops s)[l := Returned]\<rparr>)"
| "loop_from l (c # q) s =
     (if audioContext s
      then s\<lparr>audioQueue := q, loops := (loops s)[l := Decoding c], audio := audio s @ [Decode c]\<rparr>
      else loop_from l q (log_error ''Error playing audio chunk:'' s))"

definition loop_iterate :: "nat \<Rightarrow> client \<Rightarrow> client" where
  "loop_iterate l s = loop_from l (audioQueue s) s"

text \<open>
  The call itself, up to its first suspension.  The result says which invocation the
  caller's \<open>await\<close> is suspended on, if the promise is not already resolved.
\<close>

definition playAudioQueue :: "client \<Rightarrow> nat option \<times> client" where
  "playAudioQueue s =
     (if isPlaying s \<or> audioQueue s = [] then (None, s)
      else
        (let l = length (loops s);
             s1 = s\<lparr>isPlaying := True, audioContext := True, loops := loops s @ [Returned]\<rparr>;
             s2 = loop_iterate l s1
         in (if loops s2 ! l = Returned then None else Some l, s2)))"

text \<open>The continuations of invocation \<open>l\<close> after each of its two \<open>await\<close>s.\<close>

definition decode_resolved :: "nat \<Rightarrow> chunk \<Rightarrow> client \<Rightarrow> client" where
  "decode_resolved l c s =
     (if audioContext s
      then s\<lparr>loops := (loops s)[l := Playing c], audio := audio s @ [Start c]\<rparr>
      else loop_iterate l (log_error ''Error playing audio chunk:'' s))"

definition decode_rejected :: "nat \<Rightarrow> client \<Rightarrow> client" where
  "decode_rejected l s = loop_iterate l (log_error ''Error playing audio chunk:'' s)"

definition source_onended :: "nat \<Rightarrow> chunk \<Rightarrow> client \<Rightarrow> client" where
  "source_onended l c s = loop_iterate l (s\<lparr>audio := audio s @ [Ended c]\<rparr>)"

definition clearAudioQueue :: "client \<Rightarrow> client" where
  "clearAudioQueue s = s\<lparr>audioQueue := [], isPlaying := False\<rparr>"

subsection \<open>connect and the handlers of its WebSocket\<close>

definition connect :: "int \<Rightarrow> int \<Rightarrow> client \<Rightarrow> client" where
  "connect b u s =
     s\<lparr>sockets := sockets s @ [\<lparr>readyState = CONNECTING, businessId = b, userId = u, outbox = []\<rparr>],
       ws := Some (length (sockets s))\<rparr>"

definition ws_onopen :: "nat \<Rightarrow> client \<Rightarrow> client" where
  "ws_onopen i s =
     (let s1 = log ''WebSocket connected'' s;
          s2 = send (JObj [(''business_id'', JNum (businessId (sockets s1 ! i))),
                           (''user_id'', JNum (userId (sockets s1 ! i)))]) s1
      in s2\<lparr>isConnected := True, reconnectAttempts := 0\<rparr>)"

definition ws_onmessage :: "nat \<Rightarrow> message_data \<Rightarrow> client \<Rightarrow> client" where
  "ws_onmessage i d s =
     (case d of
        ArrayBuffer c \<Rightarrow>
          (case playAudioQueue (s\<lparr>audioQueue := audioQueue s @ [c]\<rparr>) of
             (None, s1) \<Rightarrow> if onAudioReceived (config s1) then invoke (AudioReceived c) s1 else s1
           | (Some l, s1) \<Rightarrow> s1\<lparr>awaiting := awaiting s1 @ [(l, c)]\<rparr>)
      | Text SyntaxError \<Rightarrow> log_error ''Error parsing message:'' s
      | Text (Parsed message) \<Rightarrow>
          (case handleMessage message s of
             Inl e \<Rightarrow> log_error ''Error parsing message:'' s
           | Inr s1 \<Rightarrow> s1))"

definition ws_onerror :: "nat \<Rightarrow> client \<Rightarrow> client" where
  "ws_onerror i s =
     (let s1 = log_error ''WebSocket error:'' s
      in if onError (config s1) then invoke (Error (JStr ''Connection error occurred'')) s1 else s1)"

definition ws_onclose :: "nat \<Rightarrow> client \<Rightarrow> client" where
  "ws_onclose i s =
     (let s1 = (log ''WebSocket disconnected'' s)\<lparr>isConnected := False\<rparr>;
          s2 = (if onDisconnected (config s1) then invoke Disconnected s1 else s1)
      in if reconnectAttempts s2 < maxReconnectAttempts
         then setTimeout (Reconnect (businessId (sockets s2 ! i)) (userId (sockets s2 ! i)))
                reconnectDelay
                (log ''Reconnecting... Attempt'' (s2\<lparr>reconnectAttempts := reconnectAttempts s2 + 1\<rparr>))
         else s2)"

subsection \<open>Recording and the turn-end timer\<close>

datatype capture_outcome = NoMediaDevices | GetUserMediaRejected | MimeUnsupported | Started

text \<open>
  \<open>startRecording\<close>, taken at the point where \<open>getUserMedia\<close> has settled (nothing of
  the client changes before).  On a failure the error is logged, reported through
  \<open>onError\<close> and thrown again to the caller (\<open>True\<close> in the result).
\<close>

definition startRecording :: "capture_outcome \<Rightarrow> client \<Rightarrow> bool \<times> client" where
  "startRecording out s =
     (if out = Started
      then (False, log ''Recording started''
                    (s\<lparr>recorders := recorders s @ [Recording],
                       mediaRecorder := Some (length (recorders s))\<rparr>))
      else
        (let s1 = log_error ''Error starting recording:'' s
         in (True, if onError (config s1)
                   then invoke (Error (JStr ''Failed to access microphone'')) s1 else s1)))"

definition resetTurnEndTimer :: "client \<Rightarrow> client" where
  "resetTurnEndTimer s =
     (let s1 = (if turnEndTimer s \<noteq> None then clearTimeout (the (turnEndTimer s)) s else s)
      in (setTimeout TurnEnd silenceDuration s1)\<lparr>turnEndTimer := Some (length (timers s1))\<rparr>)"

text \<open>The callback given to \<open>setTimeout\<close> in \<open>resetTurnEndTimer\<close>.\<close>

definition turnEnd_callback :: "client \<Rightarrow> client" where
  "turnEnd_callback s =
     (if isConnected s
      then send (JObj [(''command'', JStr ''turn_end'')]) (log ''Silence detected - ending turn'' s)
      else s)"

text \<open>
  \<open>ondataavailable\<close> starts the conversion of the blob; its \<open>then\<close> callback runs when
  the promise of \<open>arrayBuffer()\<close> resolves (the pending conversions resolve in order).
\<close>

definition ondataavailable :: "chunk \<Rightarrow> client \<Rightarrow> client" where
  "ondataavailable d s =
     (if length d > 0 \<and> isConnected s then s\<lparr>blobs := blobs s @ [d]\<rparr> else s)"

definition arrayBuffer_then :: "client \<Rightarrow> client" where
  "arrayBuffer_then s =
     (case blobs s of
        [] \<Rightarrow> s
      | buffer # rest \<Rightarrow> resetTurnEndTimer (sendAudio buffer (s\<lparr>blobs := rest\<rparr>)))"

definition stopRecording :: "client \<Rightarrow> client" where
  "stopRecording s =
     (let s1 = (if turnEndTimer s \<noteq> None
                then (clearTimeout (the (turnEndTimer s)) s)\<lparr>turnEndTimer := None\<rparr>
                else s)
      in if mediaRecorder s1 \<noteq> None \<and> recorders s1 ! the (mediaRecorder s1) \<noteq> Inactive
         then log ''Recording stopped''
                (s1\<lparr>recorders := (recorders s1)[the (mediaRecorder s1) := Inactive],
                    mediaRecorder := None\<rparr>)
         else s1)"

subsection \<open>disconnect and the getters\<close>

text \<open>\<open>WebSocket.close()\<close>: the socket starts closing unless it already is.\<close>

definition ws_close :: "nat \<Rightarrow> client \<Rightarrow> client" where
  "ws_close i s =
     (if readyState (sockets s ! i) = CLOSING \<or> readyState (sockets s ! i) = CLOSED then s
      else s\<lparr>sockets := (sockets s)[i := (sockets s ! i)\<lparr>readyState := CLOSING\<rparr>]\<rparr>)"

definition disconnect :: "client \<Rightarrow> client" where
  "disconnect s =
     (let s1 = clearAudioQueue (stopRecording s);
          s2 = (if turnEndTimer s1 \<noteq> None
                then (clearTimeout (the (turnEndTimer s1)) s1)\<lparr>turnEndTimer := None\<rparr>
                else s1);
          s3 = s2\<lparr>audioContext := False\<rparr>;
          s4 = (if ws s3 \<noteq> None
                then (ws_close (the (ws s3)) (send (JObj [(''command'', JStr ''stop'')]) s3))\<lparr>ws := None\<rparr>
                else s3)
      in s4\<lparr>isConnected := False, sessionId := None\<rparr>)"

definition isSocketConnected :: "client \<Rightarrow> bool" where
  "isSocketConnected s \<longleftrightarrow>
     isConnected s \<and> ws_ready s"

definition getSessionId :: "client \<Rightarrow> json option" where
  "getSessionId s = sessionId s"

subsection \<open>The event loop\<close>

text \<open>
  What can run next: a call of a public method by the owner of the client, or a handler
  the runtime calls.  The runtime calls a handler only when its object is in a state to
  raise it (an \<open>open\<close> on a connecting socket, a \<open>message\<close> on an open one, a \<open>close\<close>
  once per socket, a timer only while it is due, a continuation only of a suspended
  invocation); an event that cannot happen leaves the client as it is.
\<close>

datatype event =
    Call_connect int int
  | Call_startRecording capture_outcome
  | Call_stopRecording
  | Call_clearAudioQueue
  | Call_disconnect
  | Ws_open nat
  | Ws_message nat message_data
  | Ws_error nat
  | Ws_close nat
  | Recorder_data chunk
  | Buffer_ready
  | Timer_fires nat
  | Decode_ok nat
  | Decode_failed nat
  | Source_ended nat

definition set_readyState :: "nat \<Rightarrow> ready_state \<Rightarrow> client \<Rightarrow> client" where
  "set_readyState i r s = s\<lparr>sockets := (sockets s)[i := (sockets s ! i)\<lparr>readyState := r\<rparr>]\<rparr>"

definition timer_fires :: "nat \<Rightarrow> client \<Rightarrow> client" where
  "timer_fires h s =
     (case action (timers s ! h) of
        TurnEnd \<Rightarrow> turnEnd_callback (clearTimeout h s)
      | Reconnect b u \<Rightarrow> connect b u (clearTimeout h s))"

fun step :: "event \<Rightarrow> client \<Rightarrow> client" where
  "step (Call_connect b u) s = connect b u s"
| "step (Call_startRecording out) s = snd (startRecording out s)"
| "step Call_stopRecording s = stopRecording s"
| "step Call_clearAudioQueue s = clearAudioQueue s"
| "step Call_disconnect s = disconnect s"
| "step (Ws_open i) s =
     (if i < length (sockets s) \<and> readyState (sockets s ! i) = CONNECTING
      then ws_onopen i (set_readyState i OPEN s) else s)"
| "step (Ws_message i d) s = (if ws_is_open s i then ws_onmessage i d s else s)"
| "step (Ws_error i) s =
     (if i < length (sockets s) \<and> readyState (sockets s ! i) \<noteq> CLOSED
      then ws_onerror i s else s)"
| "step (Ws_close i) s =
     (if i < length (sockets s) \<and> readyState (sockets s ! i) \<noteq> CLOSED
      then ws_onclose i (set_readyState i CLOSED s) else s)"
| "step (Recorder_data d) s = (if recorders s \<noteq> [] then ondataavailable d s else s)"
| "step Buffer_ready s = arrayBuffer_then s"
| "step (Timer_fires h) s =
     (if h < length (timers s) \<and> pending (timers s ! h) then timer_fires h s else s)"
| "step (Decode_ok l) s =
     (if l < length (loops s)
      then (case loops s ! l of Decoding c \<Rightarrow> decode_resolved l c s | _ \<Rightarrow> s) else s)"
| "step (Decode_failed l) s =
     (if l < length (loops s)
      then (case loops s ! l of Decoding c \<Rightarrow> decode_rejected l s | _ \<Rightarrow> s) else s)"
| "step (Source_ended l) s =
     (if l < length (loops s)
      then (case loops s ! l of Playing c \<Rightarrow> source_onended l c s | _ \<Rightarrow> s) else s)"

fun run :: "event list \<Rightarrow> client \<Rightarrow> client" where
  "run [] s = s"
| "run (e # es) s = run es (step e s)"

subsection \<open>The component that owns the client (AIVoiceInterface)\<close>

text \<open>
  The component keeps a status and its own connected flag, sets them in the callbacks it
  gives the client, and starts or stops recording in an effect on its \<open>isListening\<close>
  property.  It gives every callback but \<open>onAudioReceived\<close>.
\<close>

datatype status = St_idle | St_connecting | St_listening | St_processing | St_speaking | St_error

record ui =
  status :: status
  uiConnected :: bool
  isActive :: bool

definition ui_config :: config where
  "ui_config = \<lparr>onSessionInitialized = True, onTranscription = True, onProcessing = True,
     onAgentSpeaking = True, onAgentFinished = True, onAudioReceived = False,
     onInterrupted = True, onError = True, onDisconnected = True, onTimeout = True\<rparr>"

fun ui_callback :: "callback \<Rightarrow> ui \<Rightarrow> ui" where
  "ui_callback (SessionInitialized sid) v = v\<lparr>uiConnected := True, status := St_idle\<rparr>"
| "ui_callback (Transcription t f) v = v"
| "ui_callback (Processing m) v = v\<lparr>status := St_processing\<rparr>"
| "ui_callback (AgentSpeaking t) v = v\<lparr>status := St_speaking\<rparr>"
| "ui_callback (AgentFinished c) v = v\<lparr>status := St_idle\<rparr>"
| "ui_callback (AudioReceived d) v = v"
| "ui_callback (Interrupted t p) v = v"
| "ui_callback (Error m) v = v\<lparr>status := St_error\<rparr>"
| "ui_callback Disconnected v = v\<lparr>uiConnected := False, status := St_idle\<rparr>"
| "ui_callback Timeout v = v\<lparr>status := St_error\<rparr>"

text \<open>The component and its client; on mount the status is set to connecting.\<close>

type_synonym app = "ui \<times> client"

definition mounted :: app where
  "mounted = (\<lparr>status = St_connecting, uiConnected = False, isActive = False\<rparr>, new_client ui_config)"

text \<open>An event of the client, followed by the callbacks it made, in order.\<close>

definition app_step :: "event \<Rightarrow> app \<Rightarrow> app" where
  "app_step e a =
     (let s1 = step e (snd a)
      in (fold ui_callback (drop (length (callbacks (snd a))) (callbacks s1)) (fst a), s1))"

fun app_run :: "event list \<Rightarrow> app \<Rightarrow> app" where
  "app_run [] a = a"
| "app_run (e # es) a = app_run es (app_step e a)"

text \<open>
  The effect on \<open>[isListening, isConnected, status]\<close>, run with the current value of
  the property; \<open>out\<close> is how \<open>getUserMedia\<close> settles should recording be started.
\<close>

definition listening_effect :: "bool \<Rightarrow> capture_outcome \<Rightarrow> app \<Rightarrow> app" where
  "listening_effect isListening out a =
     (let v = fst a; s = snd a
      in if \<not> uiConnected v then a
         else if isListening \<and> \<not> isActive v then
           (case startRecording out s of
              (False, s1) \<Rightarrow> (v\<lparr>isActive := True, status := St_listening\<rparr>, s1)
            | (True, s1) \<Rightarrow>
                (fold ui_callback (drop (length (callbacks s)) (callbacks s1))
                   (v\<lparr>isActive := True, status := St_listening\<rparr>)
                   \<lparr>status := St_error, isActive := False\<rparr>, s1))
         else if \<not> isListening \<and> isActive v then
           (v\<lparr>isActive := False, status := (if status v = St_listening then St_idle else status v)\<rparr>,
            stopRecording s)
         else a)"

text \<open>Whether the recorder the client holds is capturing.\<close>

definition capturing :: "client \<Rightarrow> bool" where
  "capturing s \<longleftrightarrow> mediaRecorder s \<noteq> None \<and> recorders s ! the (mediaRecorder s) = Recording"

subsection \<open>Notions used in the properties\<close>

text \<open>The labels of the \<open>switch\<close> in \<open>handleMessage\<close>.\<close>

definition case_labels :: "string list" where
  "case_labels = [''session_initialized'', ''transcription'', ''processing'', ''agent_speaking'',
     ''agent_finished'', ''interrupted'', ''error'', ''timeout'', ''heartbeat'', ''session_complete'']"






text \<open>
  For reconnection: the reconnects scheduled so far (every timer that is not a turn-end
  timer), the sockets that have closed, and the one event that resets the count of
  attempts.
\<close>

definition reconnects_scheduled :: "client \<Rightarrow> nat" where
  "reconnects_scheduled s = length (filter (\<lambda>a. a \<noteq> TurnEnd) (map action (timers s)))"

definition closed_sockets :: "client \<Rightarrow> nat" where
  "closed_sockets s = length (filter (\<lambda>r. r = CLOSED) (map readyState (sockets s)))"

fun is_open_event :: "event \<Rightarrow> bool" where
  "is_open_event (Ws_open i) = True"
| "is_open_event _ = False"

text \<open>
  For playback: the chunks handed to \<open>decodeAudioData\<close> and the chunks whose source was
  started, in order; the chunks pushed on the queue by a run of events; the invocations of
  \<open>playAudioQueue\<close> that have not returned; the events that clear the queue.
\<close>

fun decoded :: "audio_event list \<Rightarrow> chunk list" where
  "decoded [] = []"
| "decoded (Decode c # tr) = c # decoded tr"
| "decoded (Start c # tr) = decoded tr"
| "decoded (Ended c # tr) = decoded tr"

fun started :: "audio_event list \<Rightarrow> chunk list" where
  "started [] = []"
| "started (Decode c # tr) = started tr"
| "started (Start c # tr) = c # started tr"
| "started (Ended c # tr) = started tr"

fun pushed :: "event \<Rightarrow> client \<Rightarrow> chunk list" where
  "pushed (Ws_message i (ArrayBuffer c)) s = (if ws_is_open s i then [c] else [])"
| "pushed _ s = []"

fun enqueued :: "event list \<Rightarrow> client \<Rightarrow> chunk list" where
  "enqueued [] s = []"
| "enqueued (e # es) s = pushed e s @ enqueued es (step e s)"

definition running :: "client \<Rightarrow> nat list" where
  "running s = filter (\<lambda>l. loops s ! l \<noteq> Returned) [0..<length (loops s)]"

fun clears :: "event \<Rightarrow> bool" where
  "clears Call_clearAudioQueue = True"
| "clears Call_disconnect = True"
| "clears _ = False"

text \<open>
  Playback one chunk at a time, as an automaton over the audio trace: a chunk is decoded;
  its source may then be started (a failed decode is followed by the next decode); once
  started, the source must end before anything else happens.  A trace the automaton
  rejects has a source started or a chunk decoded while another source sounds.
\<close>

datatype playback = Silent | Decoded chunk | Sounding chunk

fun player :: "playback option \<Rightarrow> audio_event \<Rightarrow> playback option" where
  "player (Some Silent) (Decode c) = Some (Decoded c)"
| "player (Some (Decoded d)) (Decode c) = Some (Decoded c)"
| "player (Some (Decoded d)) (Start c) = (if c = d then Some (Sounding c) else None)"
| "player (Some (Sounding d)) (Ended c) = (if c = d then Some Silent else None)"
| "player _ _ = None"

definition sequential :: "audio_event list \<Rightarrow> bool" where
  "sequential tr \<longleftrightarrow> foldl player (Some Silent) tr \<noteq> None"

section \<open>The dispatcher\<close>

lemma dispatch_unknown: "t \<notin> set case_labels \<Longrightarrow> dispatch t m s = s"
  by (simp add: dispatch_def case_labels_def)

lemma dispatch_session_initialized:
  "dispatch ''session_initialized'' m s =
     (if onSessionInitialized (config s) \<and> truthy (or_null (read_prop m ''session_id''))
      then invoke (SessionInitialized (the (or_null (read_prop m ''session_id''))))
             (s\<lparr>sessionId := or_null (read_prop m ''session_id'')\<rparr>)
      else s\<lparr>sessionId := or_null (read_prop m ''session_id'')\<rparr>)"
  by (simp add: dispatch_def Let_def)

lemma dispatch_transcription:
  "dispatch ''transcription'' m s =
     (if onTranscription (config s) \<and> truthy (read_prop m ''text'')
      then invoke (Transcription (the (read_prop m ''text''))
                    (or_else (read_prop m ''is_final'') (JBool False))) s
      else s)"
  by (simp add: dispatch_def)

lemma dispatch_processing:
  "dispatch ''processing'' m s =
     (if onProcessing (config s) \<and> truthy (read_prop m ''message'')
      then invoke (Processing (the (read_prop m ''message''))) s else s)"
  by (simp add: dispatch_def)

lemma dispatch_agent_speaking:
  "dispatch ''agent_speaking'' m s =
     (if onAgentSpeaking (config s) \<and> truthy (read_prop m ''text'')
      then invoke (AgentSpeaking (the (read_prop m ''text''))) s else s)"
  by (simp add: dispatch_def)

lemma dispatch_error:
  "dispatch ''error'' m s =
     (if onError (config s) \<and> truthy (read_prop m ''message'')
      then invoke (Error (the (read_prop m ''message''))) s else s)"
  by (simp add: dispatch_def)


lemma handleMessage_null: "handleMessage JNull s = Inl TypeError"
  by (simp add: handleMessage_def)

lemma handleMessage_not_null:
  "m \<noteq> JNull \<Longrightarrow> handleMessage m s =
     (case read_prop m ''type'' of
        Some (JStr t) \<Rightarrow> Inr (dispatch t m (log ''Received message:'' s))
      | _ \<Rightarrow> Inr (log ''Received message:'' s))"
  by (cases m; clarsimp simp: handleMessage_def Let_def)

lemma handleMessage_tag:
  "read_prop m ''type'' = Some (JStr t) \<Longrightarrow>
     handleMessage m s = Inr (dispatch t m (log ''Received message:'' s))"
  by (cases m; clarsimp simp: handleMessage_def Let_def)

lemma handleMessage_unknown:
  assumes "m \<noteq> JNull" and "\<forall>t \<in> set case_labels. read_prop m ''type'' \<noteq> Some (JStr t)"
  shows "handleMessage m s = Inr (log ''Received message:'' s)"
proof (cases "read_prop m ''type''")
  case None
  with assms(1) show ?thesis by (simp add: handleMessage_not_null)
next
  case (Some v)
  show ?thesis
  proof (cases v)
    case (JStr t)
    with Some assms(2) have "t \<notin> set case_labels" by blast
    with Some JStr assms(1) show ?thesis by (simp add: handleMessage_not_null dispatch_unknown)
  qed (use Some assms(1) in \<open>simp_all add: handleMessage_not_null\<close>)
qed

text \<open>
  Claim C6.  From any client whose configuration gives \<open>onSessionInitialized\<close>: after
  \<open>connect(2, 1)\<close> and the opening of the socket it made, the only frame sent on that
  socket is the object with \<open>business_id\<close> 2 and \<open>user_id\<close> 1, which has no \<open>command\<close>
  field; and once \<open>{"type":"session_initialized","session_id":"abc"}\<close> has been received
  on it, \<open>getSessionId()\<close> is \<open>"abc"\<close> and \<open>onSessionInitialized\<close> has been called, once,
  with \<open>"abc"\<close>.
\<close>

theorem handshake_and_session_initialized:
  "onSessionInitialized (config s) \<Longrightarrow>
   (let i = length (sockets s);
        s' = run [Call_connect 2 1, Ws_open i,
                  Ws_message i (Text (Parsed (JObj [(''type'', JStr ''session_initialized''),
                                                     (''session_id'', JStr ''abc'')])))] s
    in outbox (sockets s' ! i) = [SentJSON (JObj [(''business_id'', JNum 2), (''user_id'', JNum 1)])]
     \<and> read_prop (JObj [(''business_id'', JNum 2), (''user_id'', JNum 1)]) ''command'' = None
     \<and> getSessionId s' = Some (JStr ''abc'')
     \<and> callbacks s' = callbacks s @ [SessionInitialized (JStr ''abc'')])"
  by (simp add: send_def ws_ready_def ws_send_def ws_is_open_def connect_def ws_onopen_def ws_onmessage_def
        handleMessage_tag dispatch_session_initialized log_def invoke_def set_readyState_def
        or_null_def getSessionId_def Let_def nth_append)

theorem handshake_and_session_initialized_witness:
  "onSessionInitialized (config (new_client ui_config))
   \<and> (let s' = run [Call_connect 2 1, Ws_open 0,
                    Ws_message 0 (Text (Parsed (JObj [(''type'', JStr ''session_initialized''),
                                                       (''session_id'', JStr ''abc'')])))]
                 (new_client ui_config)
      in outbox (sockets s' ! 0) = [SentJSON (JObj [(''business_id'', JNum 2), (''user_id'', JNum 1)])]
       \<and> getSessionId s' = Some (JStr ''abc'')
       \<and> callbacks s' = [SessionInitialized (JStr ''abc'')])"
  using handshake_and_session_initialized [of "new_client ui_config"]
  by (simp add: new_client_def ui_config_def send_def ws_ready_def ws_send_def ws_is_open_def connect_def
        ws_onopen_def ws_onmessage_def handleMessage_tag dispatch_session_initialized log_def
        invoke_def set_readyState_def or_null_def getSessionId_def Let_def)

text \<open>
  Claim C7.  A text frame on which \<open>JSON.parse\<close> throws only adds an error line to the
  console: no callback, no change of the client, and \<open>onmessage\<close> returns normally.  The
  same holds for the frame \<open>null\<close>, on which \<open>handleMessage\<close> throws.  A frame that parses
  to a value whose \<open>type\<close> is none of the labels of the \<open>switch\<close> only adds the line that
  \<open>handleMessage\<close> logs for every message.
\<close>

theorem malformed_and_unknown_frames_ignored:
  "ws_onmessage i (Text SyntaxError) s
     = s\<lparr>console := console s @ [ErrorLog ''Error parsing message:'']\<rparr>
   \<and> ws_onmessage i (Text (Parsed JNull)) s
     = s\<lparr>console := console s @ [ErrorLog ''Error parsing message:'']\<rparr>
   \<and> (m \<noteq> JNull \<longrightarrow> (\<forall>t \<in> set case_labels. read_prop m ''type'' \<noteq> Some (JStr t)) \<longrightarrow>
        ws_onmessage i (Text (Parsed m)) s
          = s\<lparr>console := console s @ [Log ''Received message:'']\<rparr>)"
  by (simp add: ws_onmessage_def handleMessage_unknown handleMessage_null log_def log_error_def)

theorem malformed_and_unknown_frames_ignored_witness:
  "JObj [(''type'', JStr ''pong'')] \<noteq> JNull
   \<and> read_prop (JObj [(''type'', JStr ''pong'')]) ''type'' = Some (JStr ''pong'')
   \<and> ''pong'' \<notin> set case_labels
   \<and> ws_onmessage 0 (Text (Parsed (JObj [(''type'', JStr ''pong'')]))) (new_client ui_config)
       = (new_client ui_config)\<lparr>console := [Log ''Received message:'']\<rparr>
   \<and> ws_onmessage 0 (Text SyntaxError) (new_client ui_config)
       = (new_client ui_config)\<lparr>console := [ErrorLog ''Error parsing message:'']\<rparr>"
  using malformed_and_unknown_frames_ignored
          [of 0 "new_client ui_config" "JObj [(''type'', JStr ''pong'')]"]
  by (simp add: case_labels_def new_client_def)



text \<open>
  Claim C10.  A message tagged \<open>transcription\<close> or \<open>agent_speaking\<close> whose \<open>text\<close> is
  absent or the empty string, or tagged \<open>processing\<close> or \<open>error\<close> whose \<open>message\<close> is
  absent or the empty string, calls no callback and changes nothing of the client: all it
  leaves is the console line logged for every message.
\<close>

theorem empty_payload_dropped:
  assumes "read_prop m ''type'' = Some (JStr t)"
    and "(t = ''transcription'' \<or> t = ''agent_speaking'')
           \<and> (read_prop m ''text'' = None \<or> read_prop m ''text'' = Some (JStr ''''))
       \<or> (t = ''processing'' \<or> t = ''error'')
           \<and> (read_prop m ''message'' = None \<or> read_prop m ''message'' = Some (JStr ''''))"
  shows "ws_onmessage i (Text (Parsed m)) s
           = s\<lparr>console := console s @ [Log ''Received message:'']\<rparr>"
proof -
  have "dispatch t m (log ''Received message:'' s) = log ''Received message:'' s"
    using assms(2)
    by (auto simp: dispatch_transcription dispatch_agent_speaking dispatch_processing
          dispatch_error)
  with assms(1) show ?thesis
    by (simp add: ws_onmessage_def handleMessage_tag log_def)
qed

theorem empty_payload_dropped_witness:
  "(let m = JObj [(''type'', JStr ''error'')]
    in read_prop m ''type'' = Some (JStr ''error'') \<and> read_prop m ''message'' = None
     \<and> ws_onmessage 0 (Text (Parsed m)) (new_client ui_config)
         = (new_client ui_config)\<lparr>console := [Log ''Received message:'']\<rparr>)"
  using empty_payload_dropped [of "JObj [(''type'', JStr ''error'')]" "''error''" 0 "new_client ui_config"]
  by (simp add: new_client_def)

section \<open>The session id\<close>

lemma sessionId_loop_from [simp]: "sessionId (loop_from l q s) = sessionId s"
  by (induction q arbitrary: s) (simp_all add: resume_onmessage_def log_error_def)

lemma sessionId_dispatch:
  "t \<noteq> ''session_initialized'' \<Longrightarrow> sessionId (dispatch t m s) = sessionId s"
  by (simp add: dispatch_def invoke_def send_def ws_send_def log_def)

lemma sessionId_ws_onmessage_text:
  assumes "read_prop m ''type'' \<noteq> Some (JStr ''session_initialized'')"
  shows "sessionId (ws_onmessage i (Text (Parsed m)) s) = sessionId s"
proof (cases "m = JNull")
  case True
  then show ?thesis by (simp add: ws_onmessage_def handleMessage_null log_error_def)
next
  case False
  with assms show ?thesis
    by (auto simp: ws_onmessage_def handleMessage_not_null sessionId_dispatch log_def
          split: option.splits json.splits)
qed

lemma sessionId_ws_onmessage_other:
  "sessionId (ws_onmessage i (Text SyntaxError) s) = sessionId s"
  "sessionId (ws_onmessage i (ArrayBuffer c) s) = sessionId s"
  by (simp_all add: ws_onmessage_def log_error_def playAudioQueue_def loop_iterate_def
        invoke_def Let_def split: prod.splits)

lemma sessionId_step:
  assumes "e \<noteq> Call_disconnect"
    and "\<forall>i m. e = Ws_message i (Text (Parsed m)) \<longrightarrow>
           read_prop m ''type'' \<noteq> Some (JStr ''session_initialized'')"
  shows "sessionId (step e s) = sessionId s"
proof (cases e)
  case (Ws_message i d)
  show ?thesis
  proof (cases d)
    case (ArrayBuffer c)
    with Ws_message show ?thesis by (simp add: sessionId_ws_onmessage_other)
  next
    case (Text p)
    show ?thesis
    proof (cases p)
      case SyntaxError
      with Ws_message Text show ?thesis by (simp add: sessionId_ws_onmessage_other)
    next
      case (Parsed m)
      with Ws_message Text assms(2) show ?thesis by (simp add: sessionId_ws_onmessage_text)
    qed
  qed
next
  case (Timer_fires h)
  then show ?thesis
    by (simp add: timer_fires_def turnEnd_callback_def connect_def clearTimeout_def send_def
          ws_send_def log_def split: timer_action.splits)
next
  case (Decode_ok l)
  then show ?thesis
    by (simp add: decode_resolved_def loop_iterate_def log_error_def split: loop.splits)
next
  case (Decode_failed l)
  then show ?thesis
    by (simp add: decode_rejected_def loop_iterate_def log_error_def split: loop.splits)
next
  case (Source_ended l)
  then show ?thesis by (simp add: source_onended_def loop_iterate_def split: loop.splits)
qed (use assms(1) in \<open>simp_all add: connect_def startRecording_def stopRecording_def
      clearAudioQueue_def ws_onopen_def ws_onerror_def ws_onclose_def ondataavailable_def
      arrayBuffer_then_def resetTurnEndTimer_def sendAudio_def setTimeout_def clearTimeout_def
      set_readyState_def send_def ws_send_def log_def log_error_def invoke_def Let_def
      split: list.splits\<close>)

lemma sessionId_disconnect: "sessionId (disconnect s) = None"
  by (simp add: disconnect_def Let_def)

text \<open>
  Claim C9, as the code has it.  The session id is assigned in two places only: by
  \<open>handleMessage\<close> on a \<open>session_initialized\<close> message, every time one is handled, to its
  \<open>session_id\<close> if that is truthy and to \<open>null\<close> otherwise; and by \<open>disconnect()\<close>, to
  \<open>null\<close>.  No other event changes it.
\<close>

theorem sessionId_assigned_by_init_and_disconnect_only:
  "(getSessionId (step e s) \<noteq> getSessionId s \<longrightarrow>
      e = Call_disconnect
      \<or> (\<exists>i m. e = Ws_message i (Text (Parsed m))
                \<and> read_prop m ''type'' = Some (JStr ''session_initialized'')))
   \<and> getSessionId (step Call_disconnect s) = None
   \<and> (ws_is_open s i \<longrightarrow> read_prop m ''type'' = Some (JStr ''session_initialized'') \<longrightarrow>
        getSessionId (step (Ws_message i (Text (Parsed m))) s)
          = or_null (read_prop m ''session_id''))"
proof -
  have "getSessionId (step e s) = getSessionId s"
    if "e \<noteq> Call_disconnect"
      and "\<not> (\<exists>i m. e = Ws_message i (Text (Parsed m))
                    \<and> read_prop m ''type'' = Some (JStr ''session_initialized''))"
    using that sessionId_step [of e s] by (auto simp: getSessionId_def)
  moreover have "getSessionId (step Call_disconnect s) = None"
    by (simp add: getSessionId_def sessionId_disconnect)
  moreover have "getSessionId (step (Ws_message i (Text (Parsed m))) s)
                   = or_null (read_prop m ''session_id'')"
    if "ws_is_open s i" and "read_prop m ''type'' = Some (JStr ''session_initialized'')"
    using that
    by (simp add: getSessionId_def ws_onmessage_def handleMessage_tag
          dispatch_session_initialized invoke_def log_def)
  ultimately show ?thesis by blast
qed

theorem sessionId_assigned_by_init_and_disconnect_only_witness:
  "(let s = run [Call_connect 2 1, Ws_open 0] (new_client ui_config);
        m = JObj [(''type'', JStr ''session_initialized''), (''session_id'', JStr ''abc'')];
        e = Ws_message 0 (Text (Parsed m))
    in ws_is_open s 0 \<and> read_prop m ''type'' = Some (JStr ''session_initialized'')
     \<and> getSessionId (step e s) \<noteq> getSessionId s
     \<and> getSessionId (step e s) = Some (JStr ''abc'')
     \<and> getSessionId (step Call_disconnect (step e s)) = None)"
  using sessionId_assigned_by_init_and_disconnect_only
          [of "Ws_message 0 (Text (Parsed (JObj [(''type'', JStr ''session_initialized''),
                                                   (''session_id'', JStr ''abc'')])))"
              "run [Call_connect 2 1, Ws_open 0] (new_client ui_config)" 0
              "JObj [(''type'', JStr ''session_initialized''), (''session_id'', JStr ''abc'')]"]
        sessionId_disconnect
  by (simp add: Let_def new_client_def ui_config_def connect_def ws_onopen_def ws_onmessage_def
        handleMessage_tag dispatch_session_initialized set_readyState_def send_def ws_ready_def
        ws_send_def ws_is_open_def log_def invoke_def or_null_def getSessionId_def)

text \<open>
  Claim C9 as stated fails twice.  On one connection, a second \<open>session_initialized\<close>
  assigns the session id again; and after the close of that connection
  \<open>getSessionId()\<close> still returns the id: \<open>onclose\<close> clears \<open>isConnected\<close> only.
\<close>

theorem sessionId_reassigned_and_kept_after_close:
  "(let init = (\<lambda>sid. Ws_message 0 (Text (Parsed (JObj [(''type'', JStr ''session_initialized''),
                                                           (''session_id'', JStr sid)]))));
        s1 = run [Call_connect 2 1, Ws_open 0, init ''abc''] (new_client ui_config);
        s2 = step (init ''xyz'') s1;
        s3 = step (Ws_close 0) s2
    in getSessionId s1 = Some (JStr ''abc'') \<and> getSessionId s2 = Some (JStr ''xyz'')
     \<and> length (sockets s2) = 1
     \<and> readyState (sockets s3 ! 0) = CLOSED \<and> getSessionId s3 = Some (JStr ''xyz''))"
  by (simp add: Let_def new_client_def ui_config_def connect_def ws_onopen_def ws_onmessage_def
        ws_onclose_def handleMessage_tag dispatch_session_initialized set_readyState_def send_def
        ws_ready_def ws_send_def ws_is_open_def log_def invoke_def setTimeout_def or_null_def
        getSessionId_def maxReconnectAttempts_def)

section \<open>Auxiliary facts\<close>







section \<open>What the handlers leave alone\<close>











section \<open>The turn-end timer\<close>



















section \<open>The agent speaks while the user is recorded\<close>

text \<open>
  Claim C5, as the code has it.  An \<open>agent_speaking\<close> message with a truthy \<open>text\<close> makes
  the component's status \<open>speaking\<close>; the recorder is left as it was, so capture that was
  running keeps running, and the effect on \<open>isListening\<close>, run again with the property
  still true, changes nothing.
\<close>

theorem agent_speaking_sets_status_only:
  assumes "onAgentSpeaking (config (snd a))" and "ws_is_open (snd a) i"
    and "read_prop m ''type'' = Some (JStr ''agent_speaking'')" and "truthy (read_prop m ''text'')"
  shows "(let a' = app_step (Ws_message i (Text (Parsed m))) a
          in status (fst a') = St_speaking
           \<and> mediaRecorder (snd a') = mediaRecorder (snd a) \<and> recorders (snd a') = recorders (snd a)
           \<and> capturing (snd a') = capturing (snd a)
           \<and> (isActive (fst a) \<longrightarrow> listening_effect True out a' = a'))"
  using assms
  by (simp add: app_step_def Let_def ws_onmessage_def handleMessage_tag dispatch_agent_speaking
        invoke_def log_def capturing_def listening_effect_def)

theorem agent_speaking_sets_status_only_witness:
  "(let a = listening_effect True Started
              (app_run [Call_connect 2 1, Ws_open 0,
                        Ws_message 0 (Text (Parsed (JObj [(''type'', JStr ''session_initialized''),
                                                           (''session_id'', JStr ''abc'')])))] mounted);
        m = JObj [(''type'', JStr ''agent_speaking''), (''text'', JStr ''hello'')];
        a' = app_step (Ws_message 0 (Text (Parsed m))) a
    in onAgentSpeaking (config (snd a)) \<and> ws_is_open (snd a) 0
     \<and> read_prop m ''type'' = Some (JStr ''agent_speaking'') \<and> truthy (read_prop m ''text'')
     \<and> isActive (fst a) \<and> capturing (snd a)
     \<and> status (fst a') = St_speaking \<and> capturing (snd a')
     \<and> listening_effect True Started a' = a')"
  using agent_speaking_sets_status_only
          [of "listening_effect True Started
                 (app_run [Call_connect 2 1, Ws_open 0,
                           Ws_message 0 (Text (Parsed (JObj [(''type'', JStr ''session_initialized''),
                                                              (''session_id'', JStr ''abc'')])))] mounted)"
              0 "JObj [(''type'', JStr ''agent_speaking''), (''text'', JStr ''hello'')]" Started]
  by (simp add: Let_def new_client_def ui_config_def connect_def ws_onopen_def ws_onmessage_def
        handleMessage_tag dispatch_session_initialized dispatch_agent_speaking set_readyState_def
        send_def ws_ready_def ws_send_def ws_is_open_def log_def invoke_def or_null_def mounted_def
        app_step_def listening_effect_def startRecording_def capturing_def)

text \<open>
  Claim C5 as stated fails.  The component is listening and the recorder runs; the message
  \<open>{"type":"agent_speaking","text":"hello"}\<close> arrives: the status becomes \<open>speaking\<close> and
  the recorder still runs.
\<close>

theorem agent_speaking_leaves_capture_running:
  "(let a0 = app_run [Call_connect 2 1, Ws_open 0,
                      Ws_message 0 (Text (Parsed (JObj [(''type'', JStr ''session_initialized''),
                                                         (''session_id'', JStr ''abc'')])))] mounted;
        a1 = listening_effect True Started a0;
        a2 = app_step (Ws_message 0 (Text (Parsed (JObj [(''type'', JStr ''agent_speaking''),
                                                          (''text'', JStr ''hello'')])))) a1;
        a3 = listening_effect True Started a2
    in status (fst a1) = St_listening \<and> capturing (snd a1)
     \<and> status (fst a3) = St_speaking \<and> capturing (snd a3))"
  by (simp add: Let_def new_client_def ui_config_def connect_def ws_onopen_def ws_onmessage_def
        handleMessage_tag dispatch_session_initialized dispatch_agent_speaking set_readyState_def
        send_def ws_ready_def ws_send_def ws_is_open_def log_def invoke_def or_null_def mounted_def
        app_step_def listening_effect_def startRecording_def capturing_def)

end
